theory Spec2Isabelle
  imports Complex_Main "HOL-Library.Sublist" "HOL-Library.AList"
begin

text \<open>
  The window manager (\<open>window-manager.ts\<close>: registry, creation, close-promise, IPC
  command router), the localization loader (\<open>localization.ts\<close>) and the logging
  configurator of the application shell, as functions on explicit state. The host
  runtime, the file system, \<open>JSON.parse\<close> and the scheduler are parameters.
\<close>

section \<open>Values of the host language\<close>

text \<open>
  A JavaScript number, as far as the window manager uses one: it is compared
  (\<open>===\<close>, \<open>Math.max\<close>, \<open>Math.min\<close>) and never computed with, so a finite
  double is modelled by the real number it denotes. The two signed zeros are one value here.
\<close>

datatype number = NaN | NegInfinity | Finite real | PosInfinity

text \<open>
  The values an IPC payload can carry: the primitive values, arrays, and plain objects
  as lists of their entries. Strings, arrays and objects are kept as data; what the
  runtime makes of them when a number is wanted is a parameter (\<open>conv\<close> below).
\<close>

datatype jsval =
    Undefined
  | Null
  | Boolean bool
  | Number number
  | BigInt int
  | String string
  | Array "jsval list"
  | Object "(string \<times> jsval) list"

datatype error =
    TypeError string
  | SyntaxError string
  | Error string
  | SystemError string

text \<open>
  \<open>ToNumber\<close> of ECMA-262. A BigInt is not converted: the operation raises a
  \<open>TypeError\<close>. \<open>conv\<close> is the runtime's conversion of strings, arrays and objects
  (\<open>ToPrimitive\<close>, then the numeric-literal parser); it gives a number or raises.
\<close>

fun ToNumber :: "(jsval \<Rightarrow> error + number) \<Rightarrow> jsval \<Rightarrow> error + number" where
  "ToNumber conv Undefined = Inr NaN"
| "ToNumber conv Null = Inr (Finite 0)"
| "ToNumber conv (Boolean b) = Inr (Finite (if b then 1 else 0))"
| "ToNumber conv (Number n) = Inr n"
| "ToNumber conv (BigInt i) = Inl (TypeError ''Cannot convert a BigInt value to a number'')"
| "ToNumber conv (String s) = conv (String s)"
| "ToNumber conv (Array xs) = conv (Array xs)"
| "ToNumber conv (Object kvs) = conv (Object kvs)"

text \<open>The order of the numbers other than \<open>NaN\<close>.\<close>

fun number_le :: "number \<Rightarrow> number \<Rightarrow> bool" where
  "number_le NaN _ = False"
| "number_le _ NaN = False"
| "number_le NegInfinity _ = True"
| "number_le _ PosInfinity = True"
| "number_le (Finite a) (Finite b) = (a \<le> b)"
| "number_le (Finite a) NegInfinity = False"
| "number_le PosInfinity (Finite b) = False"
| "number_le PosInfinity NegInfinity = False"

text \<open>\<open>Math.max\<close> and \<open>Math.min\<close> of two numbers: \<open>NaN\<close> as soon as one of them is.\<close>

definition Math_max :: "number \<Rightarrow> number \<Rightarrow> number" where
  "Math_max a b = (if a = NaN \<or> b = NaN then NaN else if number_le a b then b else a)"

definition Math_min :: "number \<Rightarrow> number \<Rightarrow> number" where
  "Math_min a b = (if a = NaN \<or> b = NaN then NaN else if number_le a b then a else b)"

text \<open>The calls \<open>Math.max(v, b)\<close> and \<open>Math.min(v, b)\<close> on a value and a number: the
  value is converted first, and the call raises when the conversion does.\<close>

definition Math_max_call :: "(jsval \<Rightarrow> error + number) \<Rightarrow> jsval \<Rightarrow> number \<Rightarrow> error + jsval" where
  "Math_max_call conv v b =
     (case ToNumber conv v of Inl e \<Rightarrow> Inl e | Inr x \<Rightarrow> Inr (Number (Math_max x b)))"

definition Math_min_call :: "(jsval \<Rightarrow> error + number) \<Rightarrow> jsval \<Rightarrow> number \<Rightarrow> error + jsval" where
  "Math_min_call conv v b =
     (case ToNumber conv v of Inl e \<Rightarrow> Inl e | Inr x \<Rightarrow> Inr (Number (Math_min x b)))"

text \<open>Sequencing of steps that may raise: the first exception ends the run.\<close>

definition and_then :: "error + 'a \<Rightarrow> ('a \<Rightarrow> error + 'b) \<Rightarrow> error + 'b" where
  "and_then r f = (case r of Inl e \<Rightarrow> Inl e | Inr v \<Rightarrow> f v)"

text \<open>Truthiness, as \<open>if (args)\<close> tests it.\<close>

fun truthy :: "jsval \<Rightarrow> bool" where
  "truthy Undefined = False"
| "truthy Null = False"
| "truthy (Boolean b) = b"
| "truthy (Number n) = (n \<noteq> NaN \<and> n \<noteq> Finite 0)"
| "truthy (BigInt i) = (i \<noteq> 0)"
| "truthy (String s) = (s \<noteq> [])"
| "truthy (Array xs) = True"
| "truthy (Object kvs) = True"

text \<open>The spread \<open>...v\<close>: the elements of an array, the characters of a string, and a
  \<open>TypeError\<close> for every value that is not iterable.\<close>

fun spread :: "jsval \<Rightarrow> error + jsval list" where
  "spread (Array xs) = Inr xs"
| "spread (String s) = Inr (map (\<lambda>c. String [c]) s)"
| "spread v = Inl (TypeError ''not iterable'')"

section \<open>The window registry\<close>

text \<open>
  A \<open>BrowserWindow\<close> handle is the host's object; the manager reads its runtime id and
  calls its methods, so the handle is modelled by its id and the calls made on it are
  recorded. A close callback is a function value of the caller, known here by a tag.
\<close>

record BrowserWindow =
  id_w :: nat

datatype callback = Callback nat

record ISize =
  width :: number
  height :: number

record IWindowOptions =
  name :: string
  size_w :: ISize
  minSize :: "ISize option"
  maxSize :: "ISize option"
  hasFrame :: "bool option"
  parent :: "BrowserWindow option"
  args :: "jsval option"
  onclose :: "callback option"

record IWindowData =
  window :: BrowserWindow
  options :: IWindowOptions

text \<open>
  \<open>#WindowsList\<close>, a \<open>Record<string, IWindowData>\<close>: the object's own entries, in the
  order they were first stored. The object starts as \<open>{}\<close>, so a read of a name with no
  entry of its own finds the members of \<open>Object.prototype\<close>, listed below. Storing under
  the key \<open>__proto__\<close>, which would replace the prototype instead of adding an entry, is
  not part of this model of the dictionary.
\<close>

type_synonym WindowsList = "(string \<times> IWindowData) list"

definition Object_prototype_names :: "string list" where
  "Object_prototype_names =
     [''constructor'', ''__defineGetter__'', ''__defineSetter__'', ''hasOwnProperty'',
      ''__lookupGetter__'', ''__lookupSetter__'', ''isPrototypeOf'', ''propertyIsEnumerable'',
      ''toString'', ''valueOf'', ''__proto__'', ''toLocaleString'']"

datatype lookup = ByName string | ById number

text \<open>
  The body of \<open>WindowManager.get\<close>. By name: \<open>this.#WindowsList[arg].window ?? null\<close>
  reads \<open>.window\<close> of the entry. With no entry of its own, a name of
  \<open>Object.prototype\<close> gives an inherited member (a function, or the prototype itself),
  which has no \<open>window\<close>, so \<open>?? null\<close> gives \<open>null\<close>; any other name gives
  \<open>undefined\<close>, and reading \<open>.window\<close> of it raises a \<open>TypeError\<close> before \<open>??\<close> is
  reached. By id:
  \<open>Object.values(...).map(wd => wd.window).find(w => w.id === arg) ?? null\<close>.
  The result is \<open>Inl\<close> of the exception the body raises, or \<open>Inr\<close> of the returned
  handle, \<open>None\<close> for \<open>null\<close>.
\<close>

definition get :: "WindowsList \<Rightarrow> lookup \<Rightarrow> error + BrowserWindow option" where
  "get wl arg =
     (case arg of
        ByName n \<Rightarrow>
          (case map_of wl n of
             None \<Rightarrow>
               if n \<in> set Object_prototype_names then Inr None
               else Inl (TypeError ''Cannot read properties of undefined'')
           | Some wd \<Rightarrow> Inr (Some (window wd)))
      | ById i \<Rightarrow>
          (let windows = map (\<lambda>wd. window wd) (map snd wl)
           in Inr (find (\<lambda>w. Finite (real (id_w w)) = i) windows)))"


section \<open>Creating a window\<close>

text \<open>
  The options \<open>createBaseWindow\<close> passes to the \<open>BrowserWindow\<close> constructor. The icon,
  the background colour and the preload path come from constants that play no part below
  and are left out.
\<close>

record BrowserWindowConstructorOptions =
  bw_width :: number
  bw_height :: number
  minWidth :: "number option"
  minHeight :: "number option"
  maxWidth :: "number option"
  maxHeight :: "number option"
  useContentSize :: bool
  frame :: bool
  bw_parent :: "BrowserWindow option"
  modal :: bool
  show_w :: bool
  nodeIntegration :: bool
  contextIsolation :: bool
  allowRunningInsecureContent :: bool
  webSecurity :: bool

text \<open>
  The calls the manager makes on the host, recorded in the order they are made. The
  host's methods are taken to return normally; what the manager's own code raises is
  a result of the model.
\<close>

datatype host_call =
    NewBrowserWindow BrowserWindow BrowserWindowConstructorOptions
  | SetMenuBarVisibility BrowserWindow bool
  | On BrowserWindow string
  | Once BrowserWindow string
  | Show BrowserWindow
  | Send BrowserWindow string jsval
  | SetSize BrowserWindow jsval jsval
  | Center BrowserWindow

text \<open>
  The closure of \<open>createClosePromise\<close>: the window, the callback, the local
  \<open>closeWithIPC\<close>, and what has been done so far: the argument lists \<open>onclose\<close> was
  called with, the number of \<open>window.close()\<close> requests, and the values \<open>resolve\<close> was
  called with. A promise takes the value of the first call of \<open>resolve\<close> and ignores
  the later ones.
\<close>

record ClosePromise =
  cp_window :: BrowserWindow
  cp_onclose :: "callback option"
  closeWithIPC :: bool
  onclose_calls :: "jsval list list"
  close_calls :: nat
  resolve_calls :: "jsval list"

definition settled :: "ClosePromise \<Rightarrow> jsval option" where
  "settled p = (case resolve_calls p of [] \<Rightarrow> None | v # _ \<Rightarrow> Some v)"

text \<open>The manager and the host it runs on: the registry, the id the host gives the next
  window, and the log of host calls.\<close>

record WindowManager =
  WindowsList :: WindowsList
  next_id :: nat
  calls :: "host_call list"

definition new_manager :: WindowManager where
  "new_manager = \<lparr>WindowsList = [], next_id = 1, calls = []\<rparr>"

text \<open>\<open>createClosePromise\<close>: the executor runs at once and registers the two listeners
  (\<open>ipc_message_close\<close> and \<open>close_listener\<close> below).\<close>

definition createClosePromise ::
  "WindowManager \<Rightarrow> BrowserWindow \<Rightarrow> callback option \<Rightarrow> WindowManager \<times> ClosePromise" where
  "createClosePromise m w cb =
     (m\<lparr>calls := calls m @ [On w ''ipc-message'', On w ''close'']\<rparr>,
      \<lparr>cp_window = w, cp_onclose = cb, closeWithIPC = False,
       onclose_calls = [], close_calls = 0, resolve_calls = []\<rparr>)"

text \<open>
  The listener \<open>(e, channel, args) => ...\<close> of \<open>createClosePromise\<close>. The result is the
  closure afterwards and the exception the listener raised, if any: what was done before
  the exception stays done. \<open>window.close()\<close> is counted as a request; the \<open>close\<close>
  event it leads to is an event of its own (\<open>NativeClose\<close> below), and comes after
  \<open>closeWithIPC\<close> has been set whether the host emits it inside the call or later.
\<close>

definition ipc_message_close ::
  "ClosePromise \<Rightarrow> string \<Rightarrow> jsval \<Rightarrow> ClosePromise \<times> error option" where
  "ipc_message_close p channel a =
     (if channel = ''window-close'' then
        (case (if cp_onclose p \<noteq> None then
                 (if truthy a then
                    (case spread a of
                       Inl e \<Rightarrow> Inl e
                     | Inr xs \<Rightarrow> Inr (p\<lparr>onclose_calls := onclose_calls p @ [xs]\<rparr>))
                  else Inr (p\<lparr>onclose_calls := onclose_calls p @ [[]]\<rparr>))
               else Inr p) of
           Inl e \<Rightarrow> (p, Some e)
         | Inr p1 \<Rightarrow>
             (let p2 = p1\<lparr>closeWithIPC := True, close_calls := Suc (close_calls p1)\<rparr>
              in case spread a of
                   Inl e \<Rightarrow> (p2, Some e)
                 | Inr xs \<Rightarrow> (p2\<lparr>resolve_calls := resolve_calls p2 @ [Array xs]\<rparr>, None)))
      else (p, None))"

text \<open>The listener of the window's \<open>close\<close> event.\<close>

definition close_listener :: "ClosePromise \<Rightarrow> ClosePromise" where
  "close_listener p =
     (if cp_onclose p \<noteq> None \<and> \<not> closeWithIPC p
      then p\<lparr>onclose_calls := onclose_calls p @ [[Null]],
              resolve_calls := resolve_calls p @ [Null]\<rparr>
      else p)"

text \<open>
  The events of a window that reach the close-promise. The host emits \<open>ipc-message\<close>
  as \<open>(event, channel, ...payload)\<close>, so the listener's third parameter \<open>args\<close> is the
  first payload value, \<open>undefined\<close> when the message carries none. An exception of a
  listener goes to the emitter; the closure keeps what was done.
\<close>

datatype window_event = IpcMessage string "jsval list" | NativeClose

fun fire :: "ClosePromise \<Rightarrow> window_event \<Rightarrow> ClosePromise" where
  "fire p (IpcMessage channel payload) =
     fst (ipc_message_close p channel (case payload of [] \<Rightarrow> Undefined | a # _ \<Rightarrow> a))"
| "fire p NativeClose = close_listener p"

definition run :: "ClosePromise \<Rightarrow> window_event list \<Rightarrow> ClosePromise" where
  "run p evs = foldl fire p evs"

text \<open>
  \<open>createBaseWindow\<close>. \<open>isDev\<close> and \<open>store_has\<close> stand for \<open>shared.isDev\<close> and
  \<open>shared.store.has\<close>. The result is the manager afterwards and the returned value,
  \<open>None\<close> for \<open>null\<close>.
\<close>

definition createBaseWindow ::
  "bool \<Rightarrow> (string \<Rightarrow> bool) \<Rightarrow> WindowManager \<Rightarrow> IWindowOptions
     \<Rightarrow> WindowManager \<times> ClosePromise option" where
  "createBaseWindow isDev store_has m opts =
     (let bw = \<lparr>id_w = next_id m\<rparr>;
          ctor = \<lparr>bw_width = width (size_w opts),
                  bw_height = height (size_w opts),
                  minWidth = map_option width (minSize opts),
                  minHeight = map_option height (minSize opts),
                  maxWidth = map_option width (maxSize opts),
                  maxHeight = map_option height (maxSize opts),
                  useContentSize = True,
                  frame = (case hasFrame opts of None \<Rightarrow> True | Some b \<Rightarrow> b),
                  bw_parent = parent opts,
                  modal = (parent opts \<noteq> None),
                  show_w = False,
                  nodeIntegration = False,
                  contextIsolation = True,
                  allowRunningInsecureContent = False,
                  webSecurity = True\<rparr>;
          m1 = m\<lparr>next_id := Suc (next_id m), calls := calls m @ [NewBrowserWindow bw ctor]\<rparr>;
          m2 = m1\<lparr>WindowsList :=
                   AList.update (name opts) \<lparr>window = bw, options = opts\<rparr> (WindowsList m1)\<rparr>;
          w = bw;
          enableMenuBar = store_has (''menubar-'' @ name opts);
          m3 = m2\<lparr>calls := calls m2 @
                   [SetMenuBarVisibility w (isDev \<or> enableMenuBar),
                    On w ''ready-to-show'',
                    Once w ''dom-ready'',
                    On w ''resize'',
                    On w ''ipc-message'']\<rparr>
      in case onclose opts of
           None \<Rightarrow> (m3, None)
         | Some cb \<Rightarrow> (let (m4, p) = createClosePromise m3 w (Some cb) in (m4, Some p)))"

text \<open>The other listeners \<open>createBaseWindow\<close> registers, each given by the host calls
  it makes: on \<open>ready-to-show\<close>, once on \<open>dom-ready\<close>, and on \<open>resize\<close>. The listener
  on \<open>ipc-message\<close> is \<open>windowIPCHandler\<close> on the record and the whole payload.\<close>

definition ready_to_show :: "BrowserWindow \<Rightarrow> host_call list" where
  "ready_to_show w = [Show w]"

definition dom_ready :: "IWindowOptions \<Rightarrow> BrowserWindow \<Rightarrow> host_call list" where
  "dom_ready opts w =
     (case args opts of
        None \<Rightarrow> []
      | Some a \<Rightarrow> if truthy a then [Send w ''window-arguments'' a] else [])"

definition resize_listener :: "(BrowserWindow \<Rightarrow> jsval) \<Rightarrow> BrowserWindow \<Rightarrow> host_call list" where
  "resize_listener getSize w = [Send w ''window-resized'' (getSize w)]"

section \<open>The IPC command router\<close>

text \<open>The destructuring \<open>[width, height] = args\<close>: a missing element is \<open>undefined\<close>.\<close>

definition element :: "jsval list \<Rightarrow> nat \<Rightarrow> jsval" where
  "element xs i = (if i < length xs then xs ! i else Undefined)"

text \<open>
  The three closures of \<open>windowIPCHandler\<close>, each given by the host calls it makes.
  \<open>conv\<close> is the runtime's conversion of strings, arrays and objects to numbers,
  \<open>getSize\<close> the host's answer to \<open>w.window.getSize()\<close>. \<open>resize\<close> runs its four
  \<open>Math\<close> calls in the order of the source and stops at the first that raises, before
  \<open>setSize\<close>.
\<close>

definition resize ::
  "(jsval \<Rightarrow> error + number) \<Rightarrow> IWindowData \<Rightarrow> jsval list \<Rightarrow> error + host_call list" where
  "resize conv w payload =
     (let width0 = element payload 0;
          height0 = element payload 1
      in and_then
           (case minSize (options w) of
              None \<Rightarrow> Inr (width0, height0)
            | Some lo \<Rightarrow>
                and_then (Math_max_call conv width0 (width lo)) (\<lambda>width1.
                and_then (Math_max_call conv height0 (height lo)) (\<lambda>height1.
                Inr (width1, height1))))
           (\<lambda>(width1, height1).
              and_then
                (case maxSize (options w) of
                   None \<Rightarrow> Inr (width1, height1)
                 | Some hi \<Rightarrow>
                     and_then (Math_min_call conv width1 (width hi)) (\<lambda>width2.
                     and_then (Math_min_call conv height1 (height hi)) (\<lambda>height2.
                     Inr (width2, height2))))
                (\<lambda>(width2, height2). Inr [SetSize (window w) width2 height2])))"

definition size_cmd :: "(BrowserWindow \<Rightarrow> jsval) \<Rightarrow> IWindowData \<Rightarrow> host_call list" where
  "size_cmd getSize w = [Send (window w) ''window-size'' (getSize (window w))]"

definition center :: "IWindowData \<Rightarrow> host_call list" where
  "center w = [Center (window w)]"

text \<open>
  \<open>windowIPCHandler\<close>: the function map, the test \<open>Object.keys(map).includes(channel)\<close>
  and the call \<open>map[channel]()\<close>. The result is the list of host calls made, or the
  exception raised before any.
\<close>

definition windowIPCHandler ::
  "(jsval \<Rightarrow> error + number) \<Rightarrow> (BrowserWindow \<Rightarrow> jsval) \<Rightarrow> IWindowData \<Rightarrow> string
     \<Rightarrow> jsval list \<Rightarrow> error + host_call list" where
  "windowIPCHandler conv getSize w channel payload =
     (let fmap = [(''window-resize'', resize conv w payload),
                  (''window-size'', Inr (size_cmd getSize w)),
                  (''window-center'', Inr (center w))];
          validChannel = (channel \<in> set (map fst fmap))
      in if validChannel
         then (case map_of fmap channel of
                 Some f \<Rightarrow> f
               | None \<Rightarrow> Inl (TypeError ''map[channel] is not a function''))
         else Inr [])"

section \<open>Localization\<close>

text \<open>
  The file system as \<open>fs/promises\<close> shows it: \<open>readdir\<close> with \<open>withFileTypes\<close> gives
  the entries of a directory or fails, \<open>readFile\<close> gives the text of a file or fails.
\<close>

record Dirent =
  d_name :: string
  isFile :: bool

record FileSystem =
  readdir :: "string \<Rightarrow> error + Dirent list"
  readFile :: "string \<Rightarrow> error + string"

text \<open>\<open>String.prototype.endsWith\<close>, and \<open>path.join\<close> and \<open>path.basename\<close> as they
  act on a resolved directory path and a plain file name (POSIX separators).\<close>

definition endsWith :: "string \<Rightarrow> string \<Rightarrow> bool" where
  "endsWith s x = suffix x s"

definition path_join :: "string \<Rightarrow> string \<Rightarrow> string" where
  "path_join dir filename =
     (if dir = [] then filename
      else if last dir = CHR ''/'' then dir @ filename
      else dir @ ''/'' @ filename)"

definition last_segment :: "string \<Rightarrow> string" where
  "last_segment p = rev (takeWhile (\<lambda>c. c \<noteq> CHR ''/'') (rev p))"

definition basename :: "string \<Rightarrow> string \<Rightarrow> string" where
  "basename p ext =
     (if p = ext then []
      else let b = last_segment p
           in if b \<noteq> ext \<and> suffix ext b then take (length b - length ext) b else b)"

text \<open>
  \<open>Promise.all\<close> over promises with the given outcomes (\<open>Inl\<close> a rejection): fulfilled
  with all the values when none is rejected, and rejected with the reason of the promise
  that is rejected first otherwise. \<open>settle i\<close> is the time at which promise \<open>i\<close>
  settles; it belongs to the scheduler, not to the program.
\<close>

fun earliest :: "(nat \<Rightarrow> nat) \<Rightarrow> (nat \<times> error) list \<Rightarrow> (nat \<times> error) option" where
  "earliest settle [] = None"
| "earliest settle ((i, e) # xs) =
     (case earliest settle xs of
        None \<Rightarrow> Some (i, e)
      | Some (j, e') \<Rightarrow> if settle i \<le> settle j then Some (i, e) else Some (j, e'))"

definition rejections :: "(error + 'a) list \<Rightarrow> (nat \<times> error) list" where
  "rejections ps = concat (map (\<lambda>(i, r). case r of Inl e \<Rightarrow> [(i, e)] | Inr _ \<Rightarrow> [])
                               (zip [0..<length ps] ps))"

definition Promise_all :: "(nat \<Rightarrow> nat) \<Rightarrow> (error + 'a) list \<Rightarrow> error + 'a list" where
  "Promise_all settle ps =
     (case earliest settle (rejections ps) of
        Some (i, e) \<Rightarrow> Inl e
      | None \<Rightarrow> Inr (concat (map (\<lambda>r. case r of Inl _ \<Rightarrow> [] | Inr v \<Rightarrow> [v]) ps)))"

text \<open>The async function mapped over the paths: read the file, parse it, and key the
  result by the file's stem. \<open>parse\<close> is \<open>JSON.parse\<close>.\<close>

definition read_translation ::
  "FileSystem \<Rightarrow> (string \<Rightarrow> error + 'r) \<Rightarrow> string \<Rightarrow> error + (string \<times> 'r)" where
  "read_translation fs parse p =
     (case readFile fs p of
        Inl e \<Rightarrow> Inl e
      | Inr json \<Rightarrow>
          (case parse json of
             Inl e \<Rightarrow> Inl e
           | Inr data \<Rightarrow> Inr (basename p ''.json'', data)))"

text \<open>The names and the paths of the resource files of a directory listing.\<close>

definition json_files :: "Dirent list \<Rightarrow> string list" where
  "json_files dirents =
     map d_name (filter (\<lambda>dirent. isFile dirent \<and> endsWith (d_name dirent) ''.json'') dirents)"

text \<open>\<open>getTranslationResourcesFromDir\<close>. \<open>resolve\<close> is \<open>path.resolve\<close>.\<close>

definition getTranslationResourcesFromDir ::
  "FileSystem \<Rightarrow> (string \<Rightarrow> string) \<Rightarrow> (string \<Rightarrow> error + 'r) \<Rightarrow> (nat \<Rightarrow> nat) \<Rightarrow> string
     \<Rightarrow> error + (string \<times> 'r) list" where
  "getTranslationResourcesFromDir fs resolve parse settle dirname =
     (let dir = resolve dirname
      in case readdir fs (resolve dir) of
           Inl e \<Rightarrow> Inl e
         | Inr dirents \<Rightarrow>
             (let files = json_files dirents;
                  paths = map (\<lambda>filename. path_join dir filename) files;
                  promises = map (\<lambda>p. read_translation fs parse p) paths
              in case Promise_all settle promises of
                   Inl e \<Rightarrow> Inl e
                 | Inr parsed \<Rightarrow>
                     Inr (foldl (\<lambda>resources (k, r). AList.update k r resources) [] parsed)))"

text \<open>The translation engine once \<open>init\<close> has run: its resources, its fallback
  language and its current language.\<close>

record 'r i18next =
  resources :: "(string \<times> 'r) list"
  fallbackLng :: string
  language :: string

definition changeLanguage :: "string \<Rightarrow> 'r i18next \<Rightarrow> 'r i18next" where
  "changeLanguage lang i = i\<lparr>language := lang\<rparr>"

text \<open>
  \<open>initLocalization\<close>. \<open>detected\<close> is the language the detector reports, \<open>engine\<close>
  the translation engine before the call (\<open>None\<close> when it has not been initialised).
  The result is the engine afterwards and the error the returned promise is rejected
  with, if any.
\<close>

definition initLocalization ::
  "bool \<Rightarrow> string \<Rightarrow> FileSystem \<Rightarrow> (string \<Rightarrow> string) \<Rightarrow> (string \<Rightarrow> error + 'r) \<Rightarrow> (nat \<Rightarrow> nat)
     \<Rightarrow> 'r i18next option \<Rightarrow> string \<Rightarrow> string option
     \<Rightarrow> 'r i18next option \<times> error option" where
  "initLocalization isDev detected fs resolve parse settle engine resourcesPath lang =
     (case getTranslationResourcesFromDir fs resolve parse settle resourcesPath of
        Inl e \<Rightarrow> (engine, Some e)
      | Inr res \<Rightarrow>
          (let i = \<lparr>resources = res,
                    fallbackLng = (if isDev then ''dev'' else ''en''),
                    language = detected\<rparr>
           in case lang of
                None \<Rightarrow> (Some i, None)
              | Some l \<Rightarrow> if l \<noteq> [] then (Some (changeLanguage l i), None) else (Some i, None)))"

section \<open>Logging\<close>

datatype TLoggerCategory = main | renderer | f95

record Layout =
  type_l :: string
  pattern :: string

record Appender =
  type_a :: string
  filename :: string
  layout :: Layout
  keepFileExt :: bool
  maxLogSize :: nat
  backups :: nat
  compress :: bool

record Category =
  appenders :: "string list"
  level :: string

record Configuration =
  appenders_c :: "(string \<times> Appender) list"
  categories :: "(string \<times> Category) list"

text \<open>\<open>shared.paths.LogPath\<close>: the four log files.\<close>

record LogPath =
  DEFAULT :: string
  MAIN :: string
  RENDERER :: string
  F95API :: string

definition LAYOUT :: Layout where
  "LAYOUT = \<lparr>type_l = ''pattern'', pattern = ''[%d{yyyy/MM/dd-hh.mm.ss}] (%p - %c) %m''\<rparr>"

definition createCommonAppender :: "string \<Rightarrow> Appender" where
  "createCommonAppender f =
     \<lparr>type_a = ''file'', filename = f, layout = LAYOUT, keepFileExt = True,
      maxLogSize = 10485760, backups = 3, compress = True\<rparr>"

text \<open>The module's state: its flag \<open>initialized\<close>, and the configuration the logging
  library was given by \<open>configure\<close>.\<close>

record Logging =
  initialized :: bool
  configured :: "Configuration option"

definition logging_start :: Logging where
  "logging_start = \<lparr>initialized = False, configured = None\<rparr>"

definition init :: "bool \<Rightarrow> LogPath \<Rightarrow> Logging \<Rightarrow> Logging" where
  "init isDev paths s =
     (let DEFAULT_APPENDER = createCommonAppender (DEFAULT paths);
          MAIN_APPENDER = createCommonAppender (MAIN paths);
          RENDERER_APPENDER = createCommonAppender (RENDERER paths);
          F95_APPENDER = createCommonAppender (F95API paths);
          lv = (if isDev then ''debug'' else ''warn'');
          configuration =
            \<lparr>appenders_c = [(''default'', DEFAULT_APPENDER), (''main'', MAIN_APPENDER),
                            (''renderer'', RENDERER_APPENDER), (''f95'', F95_APPENDER)],
             categories = [(''default'', \<lparr>appenders = [''default''], level = ''debug''\<rparr>),
                           (''main'', \<lparr>appenders = [''main''], level = lv\<rparr>),
                           (''renderer'', \<lparr>appenders = [''renderer''], level = lv\<rparr>),
                           (''f95'', \<lparr>appenders = [''f95''], level = lv\<rparr>)]\<rparr>
      in s\<lparr>configured := Some configuration, initialized := True\<rparr>)"

text \<open>A logger of the library, known by its category; \<open>getLogger\<close> gives one for any
  category name.\<close>

record Logger =
  category :: string

fun category_name :: "TLoggerCategory \<Rightarrow> string" where
  "category_name main = ''main''"
| "category_name renderer = ''renderer''"
| "category_name f95 = ''f95''"

definition getLogger :: "TLoggerCategory \<Rightarrow> Logger" where
  "getLogger c = \<lparr>category = category_name c\<rparr>"

text \<open>\<open>get\<close> of the logging module.\<close>

definition get_logger :: "Logging \<Rightarrow> TLoggerCategory \<Rightarrow> error + Logger" where
  "get_logger s c =
     (if \<not> initialized s then Inl (Error ''Loggers not initiailized'') else Inr (getLogger c))"

section \<open>Reference inputs and the clamping of the specification\<close>

text \<open>Options of a window named \<open>main\<close> with a lower bound on its size and the given
  close callback.\<close>

definition main_options :: "callback option \<Rightarrow> IWindowOptions" where
  "main_options cb =
     \<lparr>name = ''main'', size_w = \<lparr>width = Finite 1024, height = Finite 620\<rparr>,
      minSize = Some \<lparr>width = Finite 1024, height = Finite 620\<rparr>, maxSize = None,
      hasFrame = None, parent = None, args = None, onclose = cb\<rparr>"

text \<open>A size whose two dimensions are finite numbers.\<close>

definition finite_size :: "real \<times> real \<Rightarrow> ISize" where
  "finite_size s = \<lparr>width = Finite (fst s), height = Finite (snd s)\<rparr>"

text \<open>
  The clamping of one dimension in the words of the specification: the value is raised
  to the lower bound when there is one, and then lowered to the upper bound when there
  is one.
\<close>

definition spec_clamp :: "real option \<Rightarrow> real option \<Rightarrow> real \<Rightarrow> real" where
  "spec_clamp lo hi x =
     (let raised = (case lo of None \<Rightarrow> x | Some l \<Rightarrow> max x l)
      in case hi of None \<Rightarrow> raised | Some h \<Rightarrow> min raised h)"

text \<open>The same clamping on the numbers of the host language, where \<open>NaN\<close> stays
  \<open>NaN\<close>.\<close>

definition clamp_number :: "number option \<Rightarrow> number option \<Rightarrow> number \<Rightarrow> number" where
  "clamp_number lo hi x =
     (let raised = (case lo of None \<Rightarrow> x | Some l \<Rightarrow> Math_max x l)
      in case hi of None \<Rightarrow> raised | Some h \<Rightarrow> Math_min raised h)"

text \<open>A conversion that finds no number in any string, array or object, and a host
  whose windows report the size 1024 by 620.\<close>

definition no_number :: "jsval \<Rightarrow> error + number" where
  "no_number v = Inr NaN"

definition fixed_size :: "BrowserWindow \<Rightarrow> jsval" where
  "fixed_size b = Array [Number (Finite 1024), Number (Finite 620)]"

section \<open>Lookup in the registry\<close>

lemma get_by_id_unknown:
  "\<forall>wd \<in> set (map snd wl). Finite (real (id_w (window wd))) \<noteq> i \<Longrightarrow> get wl (ById i) = Inr None"
  by (auto simp: get_def find_None_iff)

lemma get_by_name_known:
  "map_of wl n = Some wd \<Longrightarrow> get wl (ByName n) = Inr (Some (window wd))"
  by (simp add: get_def)

lemma get_by_name_unknown:
  "map_of wl n = None \<Longrightarrow> n \<notin> set Object_prototype_names \<Longrightarrow>
   get wl (ByName n) = Inl (TypeError ''Cannot read properties of undefined'')"
  by (simp add: get_def)

lemma get_by_name_inherited:
  "map_of wl n = None \<Longrightarrow> n \<in> set Object_prototype_names \<Longrightarrow> get wl (ByName n) = Inr None"
  by (simp add: get_def)

lemma get_toString: "get [] (ByName ''toString'') = Inr None"
  by (simp add: get_def Object_prototype_names_def)

text \<open>
  C1. An unknown name does not give \<open>null\<close>: with only \<open>main\<close> registered,
  \<open>get("settings")\<close> raises a \<open>TypeError\<close> inside the method, because \<open>.window\<close> is read
  from \<open>undefined\<close> before \<open>?? null\<close> applies. An unknown numeric id gives \<open>null\<close>, as the
  method's comment says for both.
\<close>

theorem get_unknown_name_raises:
  "get (WindowsList (fst (createBaseWindow False (\<lambda>k. False) new_manager (main_options None))))
       (ByName ''settings'')
     = Inl (TypeError ''Cannot read properties of undefined'')
   \<and> get (WindowsList (fst (createBaseWindow False (\<lambda>k. False) new_manager (main_options None))))
       (ById (Finite 7))
     = Inr None"
  by (simp add: get_def createBaseWindow_def new_manager_def main_options_def Let_def
      Object_prototype_names_def)

section \<open>The close-promise\<close>

lemma close_listener_after_ipc: "closeWithIPC p \<Longrightarrow> close_listener p = p"
  by (simp add: close_listener_def)

lemma close_listener_first:
  "cp_onclose p \<noteq> None \<Longrightarrow> \<not> closeWithIPC p \<Longrightarrow> resolve_calls p = [] \<Longrightarrow>
   settled (close_listener p) = Some Null \<and>
   onclose_calls (close_listener p) = onclose_calls p @ [[Null]]"
  by (simp add: close_listener_def settled_def)

lemma ipc_close_array:
  "cp_onclose p \<noteq> None \<Longrightarrow>
   ipc_message_close p ''window-close'' (Array xs) =
     (p\<lparr>onclose_calls := onclose_calls p @ [xs], closeWithIPC := True,
        close_calls := Suc (close_calls p), resolve_calls := resolve_calls p @ [Array xs]\<rparr>, None)"
  by (simp add: ipc_message_close_def)

lemma ipc_close_array_then_native:
  "cp_onclose p \<noteq> None \<Longrightarrow> resolve_calls p = [] \<Longrightarrow>
   run p [IpcMessage ''window-close'' (Array xs # rest), NativeClose] =
     p\<lparr>onclose_calls := onclose_calls p @ [xs], closeWithIPC := True,
       close_calls := Suc (close_calls p), resolve_calls := [Array xs]\<rparr>"
  by (simp add: run_def ipc_close_array close_listener_def)

lemma settled_fire: "settled p = Some v \<Longrightarrow> settled (fire p ev) = Some v"
  by (cases ev) (auto simp: settled_def ipc_message_close_def close_listener_def Let_def
      split: list.splits sum.splits if_splits)

lemma settled_run: "settled p = Some v \<Longrightarrow> settled (run p evs) = Some v"
  unfolding run_def by (induction evs arbitrary: p) (simp_all add: settled_fire)

text \<open>
  C2. The close-promise of a window created with a close callback does not always
  resolve: when the content sends \<open>window-close\<close> without a payload, the listener calls
  the callback, sets \<open>closeWithIPC\<close>, requests the close and then raises on
  \<open>[...args]\<close>; the native close that follows finds the flag set and does nothing, so
  the promise stays pending.
\<close>

theorem close_promise_pending_after_bare_close:
  "settled (run (the (snd (createBaseWindow False (\<lambda>k. False) new_manager
                             (main_options (Some (Callback 0))))))
                [IpcMessage ''window-close'' [], NativeClose]) = None
   \<and> onclose_calls (run (the (snd (createBaseWindow False (\<lambda>k. False) new_manager
                                     (main_options (Some (Callback 0))))))
                        [IpcMessage ''window-close'' [], NativeClose]) = [[]]
   \<and> close_calls (run (the (snd (createBaseWindow False (\<lambda>k. False) new_manager
                                   (main_options (Some (Callback 0))))))
                      [IpcMessage ''window-close'' [], NativeClose]) = 1"
  by (simp add: run_def createBaseWindow_def createClosePromise_def main_options_def
      ipc_message_close_def close_listener_def settled_def Let_def)

text \<open>
  C4. On \<open>window-close\<close> with an empty argument array the listener calls the callback
  without arguments, requests the close, and resolves the promise with the empty array,
  not with \<open>null\<close>: \<open>[...args]\<close> is never nullish, so \<open>?? null\<close> never applies.
\<close>

theorem ipc_close_empty_array_resolves_array:
  "ipc_message_close (the (snd (createBaseWindow False (\<lambda>k. False) new_manager
                                  (main_options (Some (Callback 0))))))
                     ''window-close'' (Array [])
     = (\<lparr>cp_window = \<lparr>id_w = 1\<rparr>, cp_onclose = Some (Callback 0), closeWithIPC = True,
         onclose_calls = [[]], close_calls = 1, resolve_calls = [Array []]\<rparr>, None)"
  by (simp add: createBaseWindow_def createClosePromise_def main_options_def new_manager_def
      ipc_message_close_def Let_def)

section \<open>Creation\<close>

text \<open>
  C5. \<open>createBaseWindow\<close> returns a close-promise exactly when the options carry a close
  callback, and \<open>null\<close> otherwise.
\<close>

theorem createBaseWindow_promise_iff_onclose:
  "(snd (createBaseWindow isDev store_has m opts) \<noteq> None) = (onclose opts \<noteq> None)"
  by (simp add: createBaseWindow_def createClosePromise_def Let_def split: option.splits)

theorem createBaseWindow_promise_iff_onclose_witness:
  "snd (createBaseWindow False (\<lambda>k. False) new_manager (main_options (Some (Callback 0)))) \<noteq> None
   \<and> snd (createBaseWindow False (\<lambda>k. False) new_manager (main_options None)) = None"
  using createBaseWindow_promise_iff_onclose
          [of False "\<lambda>k. False" new_manager "main_options (Some (Callback 0))"]
        createBaseWindow_promise_iff_onclose
          [of False "\<lambda>k. False" new_manager "main_options None"]
  by (simp add: main_options_def)

text \<open>
  C6. After \<open>createBaseWindow\<close> the registry maps the name of the options to the new
  record (the handle the host has just made, with these options), whatever was stored
  under that name before, and maps every other name as it did before.
\<close>

theorem createBaseWindow_registers:
  "map_of (WindowsList (fst (createBaseWindow isDev store_has m opts))) =
     (map_of (WindowsList m))(name opts \<mapsto> \<lparr>window = \<lparr>id_w = next_id m\<rparr>, options = opts\<rparr>)"
  by (simp add: createBaseWindow_def createClosePromise_def Let_def update_conv'
      split: option.splits)

theorem createBaseWindow_registers_witness:
  "map_of (WindowsList (fst (createBaseWindow False (\<lambda>k. False)
             (fst (createBaseWindow False (\<lambda>k. False) new_manager (main_options None)))
             (main_options (Some (Callback 0)))))) ''main''
     = Some \<lparr>window = \<lparr>id_w = 2\<rparr>, options = main_options (Some (Callback 0))\<rparr>"
proof -
  have n: "next_id (fst (createBaseWindow False (\<lambda>k. False) new_manager (main_options None))) = 2"
    by (simp add: createBaseWindow_def new_manager_def main_options_def Let_def)
  have k: "name (main_options (Some (Callback 0))) = ''main''"
    by (simp add: main_options_def)
  show ?thesis
    using createBaseWindow_registers
            [of False "\<lambda>k. False"
                "fst (createBaseWindow False (\<lambda>k. False) new_manager (main_options None))"
                "main_options (Some (Callback 0))"]
    by (simp add: n k)
qed

section \<open>The router\<close>

lemma Math_max_Finite: "Math_max (Finite a) (Finite b) = Finite (max a b)"
  by (simp add: Math_max_def max_def)

lemma Math_min_Finite: "Math_min (Finite a) (Finite b) = Finite (min a b)"
  by (simp add: Math_min_def min_def)

lemma spec_clamp_upper: "spec_clamp lo (Some h) x \<le> h"
  by (simp add: spec_clamp_def Let_def)

lemma spec_clamp_lower: "l \<le> h \<Longrightarrow> l \<le> spec_clamp (Some l) (Some h) x"
  by (simp add: spec_clamp_def Let_def)

lemma spec_clamp_lower_only: "l \<le> spec_clamp (Some l) None x"
  by (simp add: spec_clamp_def Let_def)

lemma spec_clamp_inside:
  "(\<forall>l. lo = Some l \<longrightarrow> l \<le> x) \<Longrightarrow> (\<forall>h. hi = Some h \<longrightarrow> x \<le> h) \<Longrightarrow> spec_clamp lo hi x = x"
  by (cases lo; cases hi) (simp_all add: spec_clamp_def Let_def)

text \<open>
  C3. A \<open>window-resize\<close> command whose payload starts with two finite numbers calls
  \<open>setSize\<close> once, with each dimension clamped on its own against the finite bounds of
  the record: raised to the lower bound when \<open>minSize\<close> is present, lowered to the upper
  bound when \<open>maxSize\<close> is present.
\<close>

theorem window_resize_clamps:
  assumes "minSize (options w) = map_option finite_size lo"
      and "maxSize (options w) = map_option finite_size hi"
  shows "windowIPCHandler conv getSize w ''window-resize''
           (Number (Finite x) # Number (Finite y) # rest) =
         Inr [SetSize (window w)
                (Number (Finite (spec_clamp (map_option fst lo) (map_option fst hi) x)))
                (Number (Finite (spec_clamp (map_option snd lo) (map_option snd hi) y)))]"
  using assms
  by (cases lo; cases hi)
     (simp_all add: windowIPCHandler_def resize_def element_def finite_size_def and_then_def
        Math_max_call_def Math_min_call_def spec_clamp_def Math_max_Finite Math_min_Finite)

theorem window_resize_clamps_witness:
  "windowIPCHandler (\<lambda>v. Inr NaN) (\<lambda>b. Undefined)
     \<lparr>window = \<lparr>id_w = 1\<rparr>,
      options = \<lparr>name = ''main'', size_w = \<lparr>width = Finite 800, height = Finite 600\<rparr>,
                 minSize = None, maxSize = Some \<lparr>width = Finite 1600, height = Finite 900\<rparr>,
                 hasFrame = None, parent = None, args = None, onclose = None\<rparr>\<rparr>
     ''window-resize'' [Number (Finite 2000), Number (Finite 300)]
   = Inr [SetSize \<lparr>id_w = 1\<rparr> (Number (Finite 1600)) (Number (Finite 300))]"
  using window_resize_clamps
    [of "\<lparr>window = \<lparr>id_w = 1\<rparr>,
      options = \<lparr>name = ''main'', size_w = \<lparr>width = Finite 800, height = Finite 600\<rparr>,
                 minSize = None, maxSize = Some \<lparr>width = Finite 1600, height = Finite 900\<rparr>,
                 hasFrame = None, parent = None, args = None, onclose = None\<rparr>\<rparr>"
      None "Some (1600, 900)" "\<lambda>v. Inr NaN" "\<lambda>b. Undefined" 2000 300 "[]"]
  by (simp add: finite_size_def spec_clamp_def)

text \<open>
  C7. On a channel other than \<open>window-resize\<close>, \<open>window-size\<close> and \<open>window-center\<close> the
  router makes no host call and raises nothing.
\<close>

theorem unknown_channel_ignored:
  "channel \<notin> {''window-resize'', ''window-size'', ''window-center''} \<Longrightarrow>
   windowIPCHandler conv getSize w channel payload = Inr []"
  by (simp add: windowIPCHandler_def)

theorem unknown_channel_ignored_witness:
  "windowIPCHandler (\<lambda>v. Inr NaN) (\<lambda>b. Undefined)
     \<lparr>window = \<lparr>id_w = 1\<rparr>, options = main_options None\<rparr>
     ''window-maximize'' [Number (Finite 1)] = Inr []"
  using unknown_channel_ignored
    [of "''window-maximize''" "\<lambda>v. Inr NaN" "\<lambda>b. Undefined"
        "\<lparr>window = \<lparr>id_w = 1\<rparr>, options = main_options None\<rparr>" "[Number (Finite 1)]"]
  by simp

lemma clamp_number_NaN: "lo \<noteq> None \<or> hi \<noteq> None \<Longrightarrow> clamp_number lo hi NaN = NaN"
  by (cases lo; cases hi) (simp_all add: clamp_number_def Math_max_def Math_min_def)

lemma ToNumber_missing: "ToNumber conv (element [] i) = Inr NaN"
  by (simp add: element_def)

text \<open>
  C10. The \<open>window-resize\<close> closure does not always reach \<open>setSize\<close>: with a bound
  present, a BigInt in the payload makes \<open>Math.max\<close> raise a \<open>TypeError\<close> first.
\<close>

theorem window_resize_bigint_raises:
  "windowIPCHandler no_number fixed_size
     \<lparr>window = \<lparr>id_w = 1\<rparr>, options = main_options None\<rparr>
     ''window-resize'' [BigInt 1200, BigInt 800]
   = Inl (TypeError ''Cannot convert a BigInt value to a number'')"
  by (simp add: windowIPCHandler_def resize_def element_def main_options_def and_then_def
      Math_max_call_def)

text \<open>
  C10, as amended. The \<open>window-resize\<close> closure checks nothing. With neither bound it
  calls \<open>setSize\<close> once with the two destructured values as they are, \<open>undefined\<close> for
  a missing element. With a bound it converts the first value and then the second, and
  calls \<open>setSize\<close> once with the two numbers clamped, so that a missing or non-numeric
  value that converts to \<open>NaN\<close> is passed as \<open>NaN\<close>; when a conversion raises (a BigInt),
  the exception ends the closure before \<open>setSize\<close>.
\<close>

theorem window_resize_no_validation:
  "windowIPCHandler conv getSize w ''window-resize'' payload =
     (if minSize (options w) = None \<and> maxSize (options w) = None
      then Inr [SetSize (window w) (element payload 0) (element payload 1)]
      else case ToNumber conv (element payload 0) of
             Inl e \<Rightarrow> Inl e
           | Inr x \<Rightarrow>
               (case ToNumber conv (element payload 1) of
                  Inl e \<Rightarrow> Inl e
                | Inr y \<Rightarrow>
                    Inr [SetSize (window w)
                          (Number (clamp_number (map_option width (minSize (options w)))
                                                (map_option width (maxSize (options w))) x))
                          (Number (clamp_number (map_option height (minSize (options w)))
                                                (map_option height (maxSize (options w))) y))]))"
  by (cases "minSize (options w)"; cases "maxSize (options w)")
     (simp_all add: windowIPCHandler_def resize_def Let_def and_then_def Math_max_call_def
        Math_min_call_def clamp_number_def split: sum.splits)

theorem window_resize_no_validation_witness:
  "windowIPCHandler no_number fixed_size
     \<lparr>window = \<lparr>id_w = 1\<rparr>, options = main_options None\<rparr> ''window-resize'' []
   = Inr [SetSize \<lparr>id_w = 1\<rparr> (Number NaN) (Number NaN)]
   \<and> windowIPCHandler no_number fixed_size
     \<lparr>window = \<lparr>id_w = 1\<rparr>, options = (main_options None)\<lparr>minSize := None\<rparr>\<rparr> ''window-resize''
     [String ''wide'']
   = Inr [SetSize \<lparr>id_w = 1\<rparr> (String ''wide'') Undefined]
   \<and> windowIPCHandler no_number fixed_size
     \<lparr>window = \<lparr>id_w = 1\<rparr>,
      options = (main_options None)\<lparr>minSize := None,
                  maxSize := Some \<lparr>width = Finite 1600, height = Finite 900\<rparr>\<rparr>\<rparr>
     ''window-resize'' [Null, Boolean True]
   = Inr [SetSize \<lparr>id_w = 1\<rparr> (Number (Finite 0)) (Number (Finite 1))]"
  using window_resize_no_validation
    [of no_number fixed_size "\<lparr>window = \<lparr>id_w = 1\<rparr>, options = main_options None\<rparr>" "[]"]
    window_resize_no_validation
    [of no_number fixed_size
        "\<lparr>window = \<lparr>id_w = 1\<rparr>, options = (main_options None)\<lparr>minSize := None\<rparr>\<rparr>"
        "[String ''wide'']"]
    window_resize_no_validation
    [of no_number fixed_size
        "\<lparr>window = \<lparr>id_w = 1\<rparr>,
          options = (main_options None)\<lparr>minSize := None,
                      maxSize := Some \<lparr>width = Finite 1600, height = Finite 900\<rparr>\<rparr>\<rparr>"
        "[Null, Boolean True]"]
  by (simp add: main_options_def element_def clamp_number_def Math_max_def Math_min_def)

section \<open>Loading the translations\<close>

lemma earliest_mem: "earliest settle xs = Some x \<Longrightarrow> x \<in> set xs"
  by (induction xs arbitrary: x rule: earliest.induct) (auto split: option.splits if_splits)

lemma earliest_None: "earliest settle xs = None \<Longrightarrow> xs = []"
  by (induction xs rule: earliest.induct) (auto split: option.splits if_splits)

lemma rejections_mem: "(i, e) \<in> set (rejections ps) \<Longrightarrow> Inl e \<in> set ps"
  by (auto simp: rejections_def split: sum.splits dest: set_zip_rightD)

lemma rejections_nonempty:
  assumes "Inl e \<in> set ps"
  shows "rejections ps \<noteq> []"
proof -
  from assms obtain i where i: "i < length ps" "ps ! i = Inl e"
    by (auto simp: in_set_conv_nth)
  then have "(i, Inl e) \<in> set (zip [0..<length ps] ps)"
    by (auto simp: set_zip intro!: exI [of _ i])
  then have "(i, e) \<in> set (rejections ps)"
    unfolding rejections_def by force
  then show ?thesis by auto
qed

lemma Promise_all_rejects:
  assumes "Inl e0 \<in> set ps"
  shows "\<exists>e. Promise_all settle ps = Inl e \<and> Inl e \<in> set ps"
proof (cases "earliest settle (rejections ps)")
  case None
  with rejections_nonempty [OF assms] earliest_None show ?thesis by blast
next
  case (Some x)
  obtain i e where x: "x = (i, e)" by (cases x)
  from Some x have "Inl e \<in> set ps" by (auto dest: earliest_mem rejections_mem)
  with Some x show ?thesis by (simp add: Promise_all_def)
qed

lemma Promise_all_fulfils:
  "\<forall>r \<in> set ps. \<exists>v. r = Inr v \<Longrightarrow> \<exists>vs. Promise_all settle ps = Inr vs"
proof -
  assume a: "\<forall>r \<in> set ps. \<exists>v. r = Inr v"
  have "earliest settle (rejections ps) = None"
  proof (cases "earliest settle (rejections ps)")
    case (Some x)
    obtain i e where "x = (i, e)" by (cases x)
    with Some have "Inl e \<in> set ps" by (auto dest: earliest_mem rejections_mem)
    with a show ?thesis by auto
  qed simp
  then show ?thesis by (simp add: Promise_all_def)
qed

text \<open>
  C8. When the directory can be listed and one of its \<open>*.json\<close> files is read but does
  not parse, \<open>initLocalization\<close> leaves the translation engine as it was and its promise
  is rejected, whatever the order in which the reads settle. The reason is the
  rejection of one of the resource files, and it is that file's parse error when no
  other resource file fails.
\<close>

theorem malformed_resource_aborts_init:
  assumes dir: "readdir fs (resolve (resolve dirname)) = Inr dirents"
      and d: "d \<in> set dirents" "isFile d" "endsWith (d_name d) ''.json''"
      and content: "readFile fs (path_join (resolve dirname) (d_name d)) = Inr json"
      and bad: "parse json = Inl err"
  shows "\<exists>e. initLocalization isDev detected fs resolve parse settle engine dirname lang
               = (engine, Some e)
           \<and> (\<exists>f \<in> set (json_files dirents).
                 read_translation fs parse (path_join (resolve dirname) f) = Inl e)
           \<and> ((\<forall>f \<in> set (json_files dirents). f \<noteq> d_name d \<longrightarrow>
                  (\<exists>v. read_translation fs parse (path_join (resolve dirname) f) = Inr v))
                \<longrightarrow> e = err)"
proof -
  let ?ps = "map (\<lambda>p. read_translation fs parse p)
               (map (\<lambda>filename. path_join (resolve dirname) filename) (json_files dirents))"
  from d have mem: "d_name d \<in> set (json_files dirents)"
    by (auto simp: json_files_def)
  from content bad
  have rd: "read_translation fs parse (path_join (resolve dirname) (d_name d)) = Inl err"
    by (simp add: read_translation_def)
  with mem have "Inl err \<in> set ?ps" by force
  from Promise_all_rejects [OF this, of settle]
  obtain e where e: "Promise_all settle ?ps = Inl e" "Inl e \<in> set ?ps" by blast
  from e(2) obtain f where f: "f \<in> set (json_files dirents)"
      "read_translation fs parse (path_join (resolve dirname) f) = Inl e" by force
  have res: "initLocalization isDev detected fs resolve parse settle engine dirname lang
               = (engine, Some e)"
    using dir e(1) by (simp add: initLocalization_def getTranslationResourcesFromDir_def Let_def)
  have only: "e = err"
    if "\<forall>f \<in> set (json_files dirents). f \<noteq> d_name d \<longrightarrow>
          (\<exists>v. read_translation fs parse (path_join (resolve dirname) f) = Inr v)"
  proof (cases "f = d_name d")
    case True
    with f(2) rd show ?thesis by simp
  next
    case False
    with that f show ?thesis by auto
  qed
  from res f only show ?thesis by blast
qed

theorem malformed_resource_aborts_init_witness:
  "initLocalization False ''en''
     \<lparr>readdir = (\<lambda>p. if p = ''res'' then Inr [\<lparr>d_name = ''en.json'', isFile = True\<rparr>,
                                            \<lparr>d_name = ''it.json'', isFile = True\<rparr>,
                                            \<lparr>d_name = ''notes.txt'', isFile = True\<rparr>]
                      else Inl (SystemError ''ENOENT'')),
      readFile = (\<lambda>p. if p = ''res/en.json'' then Inr ''{}''
                       else if p = ''res/it.json'' then Inr ''{''
                       else Inl (SystemError ''ENOENT''))\<rparr>
     (\<lambda>p. p)
     (\<lambda>s. if s = ''{}'' then Inr (0::nat) else Inl (SyntaxError ''Unexpected end of JSON input''))
     (\<lambda>i. i) None ''res'' None
   = (None, Some (SyntaxError ''Unexpected end of JSON input''))"
  using malformed_resource_aborts_init
    [of "\<lparr>readdir = (\<lambda>p. if p = ''res'' then Inr [\<lparr>d_name = ''en.json'', isFile = True\<rparr>,
                                            \<lparr>d_name = ''it.json'', isFile = True\<rparr>,
                                            \<lparr>d_name = ''notes.txt'', isFile = True\<rparr>]
                      else Inl (SystemError ''ENOENT'')),
      readFile = (\<lambda>p. if p = ''res/en.json'' then Inr ''{}''
                       else if p = ''res/it.json'' then Inr ''{''
                       else Inl (SystemError ''ENOENT''))\<rparr>"
     "\<lambda>p. p" "''res''"
     "[\<lparr>d_name = ''en.json'', isFile = True\<rparr>, \<lparr>d_name = ''it.json'', isFile = True\<rparr>,
       \<lparr>d_name = ''notes.txt'', isFile = True\<rparr>]"
     "\<lparr>d_name = ''it.json'', isFile = True\<rparr>" "''{''"
     "\<lambda>s. if s = ''{}'' then Inr (0::nat) else Inl (SyntaxError ''Unexpected end of JSON input'')"
     "SyntaxError ''Unexpected end of JSON input''" False "''en''" "\<lambda>i. i" None None]
  by (simp add: endsWith_def suffix_def path_join_def json_files_def read_translation_def)

section \<open>Requesting a logger\<close>

lemma init_initialized: "initialized (init isDev paths s)"
  by (simp add: init_def Let_def)

text \<open>
  C9. In the state the module reaches after \<open>n\<close> calls of \<open>init\<close>, \<open>get\<close> throws when
  \<open>n = 0\<close> and returns the logger of the requested category otherwise, for every
  category.
\<close>

theorem get_logger_throws_iff_no_init:
  "get_logger ((init isDev paths ^^ n) logging_start) c =
     (if n = 0 then Inl (Error ''Loggers not initiailized'') else Inr (getLogger c))"
proof (cases n)
  case 0
  then show ?thesis by (simp add: get_logger_def logging_start_def)
next
  case (Suc k)
  then show ?thesis by (simp add: get_logger_def init_initialized)
qed

theorem get_logger_throws_iff_no_init_witness:
  "get_logger logging_start f95 = Inl (Error ''Loggers not initiailized'')
   \<and> get_logger (init False \<lparr>DEFAULT = ''default.log'', MAIN = ''main.log'',
                             RENDERER = ''renderer.log'', F95API = ''f95.log''\<rparr> logging_start) f95
     = Inr \<lparr>category = ''f95''\<rparr>"
  using get_logger_throws_iff_no_init
          [of 0 False "\<lparr>DEFAULT = ''default.log'', MAIN = ''main.log'',
                        RENDERER = ''renderer.log'', F95API = ''f95.log''\<rparr>" f95]
        get_logger_throws_iff_no_init
          [of 1 False "\<lparr>DEFAULT = ''default.log'', MAIN = ''main.log'',
                        RENDERER = ''renderer.log'', F95API = ''f95.log''\<rparr>" f95]
  by (simp add: getLogger_def)

end
